theory Spec2Isabelle
  imports Complex_Main "HOL-Library.Sublist" "HOL-Library.AList"
begin

section \<open>Values shared by all components\<close>

text \<open>
  A decoded JSON value, as Go's \<^verbatim>\<open>interface{}\<close> holds it after
  \<^verbatim>\<open>json.Unmarshal\<close>. A field of type \<^verbatim>\<open>interface{}\<close> that is \<^verbatim>\<open>nil\<close>
  (the JSON member is absent or \<^verbatim>\<open>null\<close>) is \<open>None\<close> of \<open>json option\<close>.
\<close>

datatype json =
    JNull
  | JBool bool
  | JNumber rat
  | JString string
  | JArray "json list"
  | JObject "(string \<times> json) list"

text \<open>
  Go errors. \<open>Wrapped p e\<close> is \<^verbatim>\<open>fmt.Errorf(p + "%w", e)\<close>; \<open>ErrorString m\<close> is
  \<^verbatim>\<open>fmt.Errorf\<close> without a wrapped error. \<open>errorText\<close> is the method \<^verbatim>\<open>Error()\<close>.
\<close>

datatype error =
    Canceled
  | DeadlineExceeded
  | EOF
  | ErrorString string
  | Wrapped string error

fun errorText :: "error \<Rightarrow> string" where
  "errorText Canceled = ''context canceled''"
| "errorText DeadlineExceeded = ''context deadline exceeded''"
| "errorText EOF = ''EOF''"
| "errorText (ErrorString m) = m"
| "errorText (Wrapped p e) = p @ errorText e"

text \<open>
  A \<^verbatim>\<open>context.Context\<close>, as far as this package observes it: \<open>ctx k\<close> is what
  \<^verbatim>\<open>ctx.Err()\<close> returns at the \<open>k\<close>-th observation, \<open>None\<close> while the context is live.
  The channel \<^verbatim>\<open>ctx.Done()\<close> is closed exactly when \<^verbatim>\<open>ctx.Err()\<close> is not nil.
\<close>

type_synonym "context" = "nat \<Rightarrow> error option"

definition background :: "context" where
  "background = (\<lambda>k. None)"

section \<open>Protocol message types\<close>

record JSONRPCRequest =
  JSONRPC :: string
  ID :: "json option"
  Method :: string
  Params :: "json option"

record JSONRPCError =
  Code :: int
  Message :: string
  Data :: "json option"

record ClientInfo =
  Name :: string
  Version :: string

record ServerInfo =
  Name :: string
  Version :: string

record RootsCapability =
  ListChanged :: bool

record PromptsCapability =
  ListChanged :: bool

record ToolsCapability =
  ListChanged :: bool

record Capabilities =
  Roots :: "RootsCapability option"
  Sampling :: "unit option"

record ServerCapabilities =
  Prompts :: "PromptsCapability option"
  Tools :: "ToolsCapability option"

record InitializeParams =
  ProtocolVersion :: string
  Capabilities :: Capabilities
  ClientInfo :: ClientInfo

record InitializeResult =
  ProtocolVersion :: string
  Capabilities :: ServerCapabilities
  ServerInfo :: ServerInfo

record PromptArgument =
  Name :: string
  Description :: string
  Required :: bool

record Prompt =
  Name :: string
  Description :: string
  Arguments :: "PromptArgument list"

record ListPromptsResult =
  Prompts :: "Prompt list"
  NextCursor :: string

text \<open>
  A Go \<^verbatim>\<open>map[string]string\<close> is an association list with distinct keys; the order
  of the list is the order in which \<^verbatim>\<open>range\<close> visits the map, which the Go runtime
  chooses. The nil map and the empty map are both \<open>[]\<close>.
\<close>

record GetPromptParams =
  Name :: string
  Arguments :: "(string \<times> string) list"

record MessageContent =
  Type :: string
  Text :: string

record PromptMessage =
  Role :: string
  Content :: MessageContent

record GetPromptResult =
  Description :: string
  Messages :: "PromptMessage list"

text \<open>The three values the dispatcher stores in the \<^verbatim>\<open>Result interface{}\<close> field.\<close>

datatype result =
    InitializeResultV InitializeResult
  | ListPromptsResultV ListPromptsResult
  | GetPromptResultV GetPromptResult

record JSONRPCResponse =
  JSONRPC :: string
  ID :: "json option"
  Result :: "result option"
  Error :: "JSONRPCError option"

section \<open>Prompt registry\<close>

type_synonym PromptHandler =
  "context \<Rightarrow> (string \<times> string) list \<Rightarrow> error + GetPromptResult"

text \<open>
  The two Go maps of the registry are association lists; \<open>Register\<close> overwrites the
  entry of a name that is already present.
\<close>

record PromptRegistry =
  prompts :: "(string \<times> Prompt) list"
  handlers :: "(string \<times> PromptHandler) list"

record ArgumentDefinition =
  Name :: string
  Description :: string
  Required :: bool

record PromptDefinition =
  Name :: string
  Description :: string
  Arguments :: "ArgumentDefinition list"
  Content :: string

definition NewPromptRegistry :: PromptRegistry where
  "NewPromptRegistry = \<lparr>prompts = [], handlers = []\<rparr>"

definition Register :: "PromptRegistry \<Rightarrow> Prompt \<Rightarrow> PromptHandler \<Rightarrow> PromptRegistry" where
  "Register r prompt handler =
     r\<lparr>prompts := AList.update (Prompt.Name prompt) prompt (prompts r),
       handlers := AList.update (Prompt.Name prompt) handler (handlers r)\<rparr>"

text \<open>The order of the result is one of the orders Go may produce; no theorem uses it.\<close>

definition ListPrompts :: "PromptRegistry \<Rightarrow> Prompt list" where
  "ListPrompts r = map snd (prompts r)"

definition Execute ::
  "PromptRegistry \<Rightarrow> context \<Rightarrow> string \<Rightarrow> (string \<times> string) list \<Rightarrow> error + GetPromptResult" where
  "Execute r ctx name args =
     (case map_of (handlers r) name of
        None \<Rightarrow> Inl (ErrorString (''prompt not found: '' @ name))
      | Some handler \<Rightarrow> handler ctx args)"

definition ToPrompt :: "PromptDefinition \<Rightarrow> Prompt" where
  "ToPrompt d =
     \<lparr>Prompt.Name = PromptDefinition.Name d,
      Description = PromptDefinition.Description d,
      Arguments =
        map (\<lambda>arg. \<lparr>PromptArgument.Name = ArgumentDefinition.Name arg,
                     Description = ArgumentDefinition.Description arg,
                     Required = ArgumentDefinition.Required arg\<rparr>)
            (PromptDefinition.Arguments d)\<rparr>"

text \<open>
  The size that \<^verbatim>\<open>utf8.DecodeRuneInString\<close> returns for a string that is not empty:
  the number of bytes of its first UTF-8 sequence, and 1 for a byte that starts no valid
  sequence. \<open>continuationBytes sz lo hi\<close> is the part of the Go function after the
  lookup of the first byte, for a sequence of \<open>sz\<close> bytes whose second byte must lie
  between \<open>lo\<close> and \<open>hi\<close>.
\<close>

definition continuationBytes :: "nat \<Rightarrow> nat \<Rightarrow> nat \<Rightarrow> string \<Rightarrow> nat" where
  "continuationBytes sz lo hi s =
     (if length s < sz then 1
      else if of_char (s ! 1) < lo \<or> hi < of_char (s ! 1) then 1
      else if sz \<le> 2 then 2
      else if of_char (s ! 2) < (0x80 :: nat) \<or> (0xBF :: nat) < of_char (s ! 2) then 1
      else if sz \<le> 3 then 3
      else if of_char (s ! 3) < (0x80 :: nat) \<or> (0xBF :: nat) < of_char (s ! 3) then 1
      else 4)"

definition runeSize :: "string \<Rightarrow> nat" where
  "runeSize s =
     (let s0 = of_char (hd s) :: nat in
      if s0 < 0x80 then 1
      else if s0 < 0xC2 then 1
      else if s0 \<le> 0xDF then continuationBytes 2 0x80 0xBF s
      else if s0 = 0xE0 then continuationBytes 3 0xA0 0xBF s
      else if s0 = 0xED then continuationBytes 3 0x80 0x9F s
      else if s0 \<le> 0xEF then continuationBytes 3 0x80 0xBF s
      else if s0 = 0xF0 then continuationBytes 4 0x90 0xBF s
      else if s0 \<le> 0xF3 then continuationBytes 4 0x80 0xBF s
      else if s0 = 0xF4 then continuationBytes 4 0x80 0x8F s
      else 1)"

text \<open>
  \<^verbatim>\<open>strings.ReplaceAll(s, old, new)\<close> for an empty \<open>old\<close>: \<open>new\<close> is written before
  every UTF-8 sequence of \<open>s\<close> and after the last one. \<open>afterEveryRune s new\<close> is what
  follows the first copy of \<open>new\<close>.
\<close>

function afterEveryRune :: "string \<Rightarrow> string \<Rightarrow> string" where
  "afterEveryRune s new =
     (if s = [] then []
      else take (runeSize s) s @ new @ afterEveryRune (drop (runeSize s) s) new)"
  by pat_completeness auto
termination
proof (relation "measure (\<lambda>(s, new). length s)")
  fix s new :: string
  assume "s \<noteq> []"
  have "0 < continuationBytes sz lo hi s" for sz lo hi
    unfolding continuationBytes_def by simp
  then have "0 < runeSize s"
    unfolding runeSize_def Let_def by simp
  with \<open>s \<noteq> []\<close>
  show "((drop (runeSize s) s, new), (s, new)) \<in> measure (\<lambda>(s, new). length s)"
    by simp
qed simp

declare afterEveryRune.simps [simp del]

text \<open>
  \<^verbatim>\<open>strings.ReplaceAll(s, old, new)\<close>: the occurrences of \<open>old\<close> are found from left
  to right and do not overlap. \<open>CreateHandler\<close> never passes an empty \<open>old\<close>, since
  its placeholder starts with two braces.
\<close>

function ReplaceAll :: "string \<Rightarrow> string \<Rightarrow> string \<Rightarrow> string" where
  "ReplaceAll s old new =
     (if old = [] then new @ afterEveryRune s new
      else if s = [] then []
      else if prefix old s then new @ ReplaceAll (drop (length old) s) old new
      else hd s # ReplaceAll (tl s) old new)"
  by pat_completeness auto
termination
  by (relation "measure (\<lambda>(s, old, new). length s)") auto

declare ReplaceAll.simps [simp del]

text \<open>\<^verbatim>\<open>fmt.Sprintf("{{%s}}", name)\<close>\<close>

definition placeholder :: "string \<Rightarrow> string" where
  "placeholder name = ''{{'' @ name @ ''}}''"

definition CreateHandler :: "PromptDefinition \<Rightarrow> PromptHandler" where
  "CreateHandler d = (\<lambda>ctx args.
     if Content d = [] then
       Inl (ErrorString (''no content available for prompt: '' @ PromptDefinition.Name d))
     else
       Inr \<lparr>GetPromptResult.Description = PromptDefinition.Description d,
            Messages =
              [\<lparr>Role = ''user'',
                Content =
                  \<lparr>Type = ''text'',
                   Text = fold (\<lambda>(name, value) content.
                                  ReplaceAll content (placeholder name) value)
                               args (Content d)\<rparr>\<rparr>]\<rparr>)"

section \<open>The JSON library, as the server uses it\<close>

text \<open>
  The four calls of \<^verbatim>\<open>encoding/json\<close> that decide a branch of the server are
  parameters of the model: \<open>unmarshalRequest\<close> and \<open>unmarshalBatch\<close> are
  \<^verbatim>\<open>json.Unmarshal\<close> of a body into a request and into a slice of requests,
  \<open>unmarshalInitializeParams\<close> and \<open>unmarshalGetPromptParams\<close> are the
  \<^verbatim>\<open>json.Marshal\<close> of \<^verbatim>\<open>request.Params\<close> followed by \<^verbatim>\<open>json.Unmarshal\<close> into
  the parameter struct. \<open>None\<close> is a non-nil error of \<^verbatim>\<open>json.Unmarshal\<close>.
\<close>

record encoding_json =
  unmarshalRequest :: "string \<Rightarrow> JSONRPCRequest option"
  unmarshalBatch :: "string \<Rightarrow> JSONRPCRequest list option"
  unmarshalInitializeParams :: "json \<Rightarrow> InitializeParams option"
  unmarshalGetPromptParams :: "json \<Rightarrow> GetPromptParams option"

section \<open>Protocol dispatcher\<close>

record Server =
  name :: string
  version :: string
  promptRegistry :: PromptRegistry
  initialized :: bool
  protocolVersion :: string

definition NewServer :: "string \<Rightarrow> string \<Rightarrow> Server" where
  "NewServer name' version' =
     \<lparr>name = name',
      version = version',
      promptRegistry = NewPromptRegistry,
      initialized = False,
      protocolVersion = ''2025-03-26''\<rparr>"

definition RegisterPrompt :: "Server \<Rightarrow> Prompt \<Rightarrow> PromptHandler \<Rightarrow> Server" where
  "RegisterPrompt s prompt handler =
     s\<lparr>promptRegistry := Register (promptRegistry s) prompt handler\<rparr>"

definition errorResponse ::
  "json option \<Rightarrow> int \<Rightarrow> string \<Rightarrow> json option \<Rightarrow> JSONRPCResponse" where
  "errorResponse id' code message data =
     \<lparr>JSONRPCResponse.JSONRPC = ''2.0'',
      ID = id',
      Result = None,
      Error = Some \<lparr>Code = code, Message = message, Data = data\<rparr>\<rparr>"

text \<open>
  The declaration \<^verbatim>\<open>var params T\<close> followed by the guarded decoding: absent
  parameters leave the zero value of the struct.
\<close>

definition zeroInitializeParams :: InitializeParams where
  "zeroInitializeParams =
     \<lparr>InitializeParams.ProtocolVersion = [],
      Capabilities = \<lparr>Roots = None, Sampling = None\<rparr>,
      ClientInfo = \<lparr>ClientInfo.Name = [], Version = []\<rparr>\<rparr>"

definition zeroGetPromptParams :: GetPromptParams where
  "zeroGetPromptParams = \<lparr>GetPromptParams.Name = [], Arguments = []\<rparr>"

definition initializeParamsOf :: "encoding_json \<Rightarrow> JSONRPCRequest \<Rightarrow> InitializeParams option" where
  "initializeParamsOf js request =
     (case Params request of
        None \<Rightarrow> Some zeroInitializeParams
      | Some p \<Rightarrow> unmarshalInitializeParams js p)"

definition getPromptParamsOf :: "encoding_json \<Rightarrow> JSONRPCRequest \<Rightarrow> GetPromptParams option" where
  "getPromptParamsOf js request =
     (case Params request of
        None \<Rightarrow> Some zeroGetPromptParams
      | Some p \<Rightarrow> unmarshalGetPromptParams js p)"

definition handleInitialize :: "encoding_json \<Rightarrow> Server \<Rightarrow> JSONRPCRequest \<Rightarrow> JSONRPCResponse" where
  "handleInitialize js s request =
     (case initializeParamsOf js request of
        None \<Rightarrow> errorResponse (JSONRPCRequest.ID request) (- 32602) ''Invalid params'' None
      | Some params \<Rightarrow>
          \<lparr>JSONRPCResponse.JSONRPC = ''2.0'',
           ID = JSONRPCRequest.ID request,
           Result = Some (InitializeResultV
             \<lparr>InitializeResult.ProtocolVersion = protocolVersion s,
              Capabilities = \<lparr>ServerCapabilities.Prompts = Some \<lparr>PromptsCapability.ListChanged = False\<rparr>,
                              Tools = None\<rparr>,
              ServerInfo = \<lparr>ServerInfo.Name = name s, Version = version s\<rparr>\<rparr>),
           Error = None\<rparr>)"

definition handlePromptsList :: "Server \<Rightarrow> JSONRPCRequest \<Rightarrow> JSONRPCResponse" where
  "handlePromptsList s request =
     \<lparr>JSONRPCResponse.JSONRPC = ''2.0'',
      ID = JSONRPCRequest.ID request,
      Result = Some (ListPromptsResultV
        \<lparr>Prompts = ListPrompts (promptRegistry s), NextCursor = []\<rparr>),
      Error = None\<rparr>"

definition handlePromptsGet ::
  "encoding_json \<Rightarrow> context \<Rightarrow> Server \<Rightarrow> JSONRPCRequest \<Rightarrow> JSONRPCResponse" where
  "handlePromptsGet js ctx s request =
     (case getPromptParamsOf js request of
        None \<Rightarrow> errorResponse (JSONRPCRequest.ID request) (- 32602) ''Invalid params'' None
      | Some params \<Rightarrow>
          (case Execute (promptRegistry s) ctx (GetPromptParams.Name params)
                        (GetPromptParams.Arguments params) of
             Inl err \<Rightarrow> errorResponse (JSONRPCRequest.ID request) (- 32603) (errorText err) None
           | Inr result \<Rightarrow>
               \<lparr>JSONRPCResponse.JSONRPC = ''2.0'',
                ID = JSONRPCRequest.ID request,
                Result = Some (GetPromptResultV result),
                Error = None\<rparr>))"

text \<open>
  \<open>handleRequest\<close> returns the response (\<open>None\<close> is the nil pointer) and the server
  after the call; the only field it ever writes is \<open>initialized\<close>.
\<close>

definition handleRequest ::
  "encoding_json \<Rightarrow> context \<Rightarrow> Server \<Rightarrow> JSONRPCRequest \<Rightarrow> JSONRPCResponse option \<times> Server" where
  "handleRequest js ctx s request =
     (if Method request = ''initialize'' then
        (Some (handleInitialize js s request), s)
      else if Method request = ''initialized'' then
        (None, s\<lparr>initialized := True\<rparr>)
      else if Method request = ''prompts/list'' then
        (if \<not> initialized s then
           (Some (errorResponse (JSONRPCRequest.ID request) (- 32002) ''Server not initialized'' None), s)
         else (Some (handlePromptsList s request), s))
      else if Method request = ''prompts/get'' then
        (if \<not> initialized s then
           (Some (errorResponse (JSONRPCRequest.ID request) (- 32002) ''Server not initialized'' None), s)
         else (Some (handlePromptsGet js ctx s request), s))
      else
        (Some (errorResponse (JSONRPCRequest.ID request) (- 32601) ''Method not found'' None), s))"

text \<open>A sequence of messages dispatched one after the other on the same server.\<close>

fun dispatchAll :: "encoding_json \<Rightarrow> context \<Rightarrow> Server \<Rightarrow> JSONRPCRequest list \<Rightarrow> Server" where
  "dispatchAll js ctx s [] = s"
| "dispatchAll js ctx s (request # rest) =
     dispatchAll js ctx (snd (handleRequest js ctx s request)) rest"

text \<open>
  The servers a program can hold: made by \<open>NewServer\<close>, then any number of
  registrations and dispatched messages, in any order.
\<close>

inductive reachable :: "string \<Rightarrow> string \<Rightarrow> Server \<Rightarrow> bool" for n v where
  reachable_new: "reachable n v (NewServer n v)"
| reachable_register: "reachable n v s \<Longrightarrow> reachable n v (RegisterPrompt s prompt handler)"
| reachable_dispatch: "reachable n v s \<Longrightarrow> reachable n v (snd (handleRequest js ctx s request))"

section \<open>Line transport\<close>

text \<open>
  Standard input is the lines that \<^verbatim>\<open>scanner.Scan()\<close> delivers, followed by the value
  of \<^verbatim>\<open>scanner.Err()\<close> once \<open>Scan\<close> has returned false. The \<open>k\<close>-th iteration of the
  loop observes the context as \<open>ctx k\<close>. The result is the returned error, the server
  at that moment and the responses written to standard output, in order; writes to
  standard output are taken to succeed.
\<close>

fun emit :: "JSONRPCResponse \<Rightarrow> error option \<times> Server \<times> JSONRPCResponse list
    \<Rightarrow> error option \<times> Server \<times> JSONRPCResponse list" where
  "emit r (e, s, out) = (e, s, r # out)"

fun Run_loop ::
  "encoding_json \<Rightarrow> context \<Rightarrow> nat \<Rightarrow> Server \<Rightarrow> string list \<Rightarrow> error option
    \<Rightarrow> error option \<times> Server \<times> JSONRPCResponse list" where
  "Run_loop js ctx k s [] scanErr =
     (case ctx k of
        Some e \<Rightarrow> (Some e, s, [])
      | None \<Rightarrow>
          (case scanErr of
             None \<Rightarrow> (None, s, [])
           | Some err \<Rightarrow>
               if err \<noteq> EOF then (Some (Wrapped ''error reading from stdin: '' err), s, [])
               else (None, s, [])))"
| "Run_loop js ctx k s (line # rest) scanErr =
     (case ctx k of
        Some e \<Rightarrow> (Some e, s, [])
      | None \<Rightarrow>
          if length line = 0 then Run_loop js ctx (Suc k) s rest scanErr
          else
            (case unmarshalRequest js line of
               None \<Rightarrow>
                 emit (errorResponse None (- 32700) ''Parse error'' None)
                      (Run_loop js ctx (Suc k) s rest scanErr)
             | Some request \<Rightarrow>
                 (case handleRequest js ctx s request of
                    (None, s') \<Rightarrow> Run_loop js ctx (Suc k) s' rest scanErr
                  | (Some response, s') \<Rightarrow>
                      emit response (Run_loop js ctx (Suc k) s' rest scanErr))))"

definition Run ::
  "encoding_json \<Rightarrow> context \<Rightarrow> Server \<Rightarrow> string list \<Rightarrow> error option
    \<Rightarrow> error option \<times> Server \<times> JSONRPCResponse list" where
  "Run js ctx s stdin scanErr = Run_loop js ctx 0 s stdin scanErr"

section \<open>HTTP transport\<close>

datatype http_body =
    NoBody
  | PlainText string
  | JSONObject JSONRPCResponse
  | JSONArray "JSONRPCResponse list"

record HTTPResponse =
  StatusCode :: nat
  ContentType :: "string option"
  Body :: http_body

definition handleSingleRequest ::
  "encoding_json \<Rightarrow> context \<Rightarrow> Server \<Rightarrow> JSONRPCRequest \<Rightarrow> HTTPResponse \<times> Server" where
  "handleSingleRequest js ctx s request =
     (case handleRequest js ctx s request of
        (response, s') \<Rightarrow>
          if JSONRPCRequest.ID request = None then
            (\<lparr>StatusCode = 202, ContentType = None, Body = NoBody\<rparr>, s')
          else
            (case response of
               Some r \<Rightarrow>
                 (\<lparr>StatusCode = 200, ContentType = Some ''application/json'',
                   Body = JSONObject r\<rparr>, s')
             | None \<Rightarrow>
                 (\<lparr>StatusCode = 200, ContentType = Some ''application/json'',
                   Body = NoBody\<rparr>, s')))"

text \<open>
  The loop of \<open>handleBatchRequest\<close>, with its two variables \<open>responses\<close> and
  \<open>hasRequests\<close>.
\<close>

fun batch_loop ::
  "encoding_json \<Rightarrow> context \<Rightarrow> Server \<Rightarrow> JSONRPCRequest list \<Rightarrow> JSONRPCResponse list \<Rightarrow> bool
    \<Rightarrow> JSONRPCResponse list \<times> bool \<times> Server" where
  "batch_loop js ctx s [] responses hasRequests = (responses, hasRequests, s)"
| "batch_loop js ctx s (request # rest) responses hasRequests =
     (case handleRequest js ctx s request of
        (response, s') \<Rightarrow>
          if JSONRPCRequest.ID request \<noteq> None then
            (case response of
               Some r \<Rightarrow> batch_loop js ctx s' rest (responses @ [r]) True
             | None \<Rightarrow> batch_loop js ctx s' rest responses True)
          else batch_loop js ctx s' rest responses hasRequests)"

definition handleBatchRequest ::
  "encoding_json \<Rightarrow> context \<Rightarrow> Server \<Rightarrow> JSONRPCRequest list \<Rightarrow> HTTPResponse \<times> Server" where
  "handleBatchRequest js ctx s batch =
     (case batch_loop js ctx s batch [] False of
        (responses, hasRequests, s') \<Rightarrow>
          if \<not> hasRequests then
            (\<lparr>StatusCode = 202, ContentType = None, Body = NoBody\<rparr>, s')
          else
            (\<lparr>StatusCode = 200, ContentType = Some ''application/json'',
              Body = JSONArray responses\<rparr>, s'))"

definition sendJSONError :: "json option \<Rightarrow> int \<Rightarrow> string \<Rightarrow> json option \<Rightarrow> HTTPResponse" where
  "sendJSONError id' code message data =
     \<lparr>StatusCode = 400, ContentType = Some ''application/json'',
      Body = JSONObject (errorResponse id' code message data)\<rparr>"

text \<open>
  The body of the POST is the result of \<^verbatim>\<open>io.ReadAll\<close>: an error or the bytes.
  \<^verbatim>\<open>http.Error\<close> sends its message as plain text, followed by a newline.
\<close>

definition handleJSONRPC ::
  "encoding_json \<Rightarrow> context \<Rightarrow> Server \<Rightarrow> error + string \<Rightarrow> HTTPResponse \<times> Server" where
  "handleJSONRPC js ctx s body =
     (case body of
        Inl err \<Rightarrow>
          (\<lparr>StatusCode = 400, ContentType = Some ''text/plain; charset=utf-8'',
            Body = PlainText (''Failed to read request body'' @ [CHR 0x0A])\<rparr>, s)
      | Inr bytes \<Rightarrow>
          (case unmarshalRequest js bytes of
             None \<Rightarrow>
               (case unmarshalBatch js bytes of
                  None \<Rightarrow> (sendJSONError None (- 32700) ''Parse error'' None, s)
                | Some batch \<Rightarrow> handleBatchRequest js ctx s batch)
           | Some request \<Rightarrow> handleSingleRequest js ctx s request))"

section \<open>Notions used to state the properties\<close>

text \<open>
  What the line transport does with a sequence of lines when nothing interrupts it:
  the server after the last line and the responses written, in order.
\<close>

fun handleLines ::
  "encoding_json \<Rightarrow> context \<Rightarrow> Server \<Rightarrow> string list \<Rightarrow> Server \<times> JSONRPCResponse list" where
  "handleLines js ctx s [] = (s, [])"
| "handleLines js ctx s (line # rest) =
     (if line = [] then handleLines js ctx s rest
      else
        (case unmarshalRequest js line of
           None \<Rightarrow>
             (case handleLines js ctx s rest of
                (s', out) \<Rightarrow> (s', errorResponse None (- 32700) ''Parse error'' None # out))
         | Some request \<Rightarrow>
             (case handleRequest js ctx s request of
                (response, s') \<Rightarrow>
                  (case handleLines js ctx s' rest of
                     (s'', out) \<Rightarrow>
                       (s'', (case response of None \<Rightarrow> [] | Some r \<Rightarrow> [r]) @ out)))))"

text \<open>
  The response to the \<open>i\<close>-th element of a batch: the element is dispatched on the
  server that the elements before it have left.
\<close>

definition responseAt ::
  "encoding_json \<Rightarrow> context \<Rightarrow> Server \<Rightarrow> JSONRPCRequest list \<Rightarrow> nat \<Rightarrow> JSONRPCResponse option" where
  "responseAt js ctx s batch i =
     fst (handleRequest js ctx (dispatchAll js ctx s (take i batch)) (batch ! i))"

text \<open>The elements of a batch that get an entry in the response array.\<close>

definition answered :: "JSONRPCRequest \<Rightarrow> bool" where
  "answered request =
     (JSONRPCRequest.ID request \<noteq> None \<and> Method request \<noteq> ''initialized'')"

text \<open>
  A prompt text seen as a template: literal pieces and placeholders. \<open>render\<close> is the
  text itself, \<open>instantiate\<close> the text in which the placeholder of every argument of
  the map is replaced by its value and every other placeholder is kept.
\<close>

datatype segment = Lit string | Hole string

fun render :: "segment list \<Rightarrow> string" where
  "render [] = []"
| "render (Lit t # T) = t @ render T"
| "render (Hole n # T) = placeholder n @ render T"

fun instantiate :: "(string \<times> string) list \<Rightarrow> segment list \<Rightarrow> string" where
  "instantiate args [] = []"
| "instantiate args (Lit t # T) = t @ instantiate args T"
| "instantiate args (Hole n # T) =
     (case map_of args n of Some v \<Rightarrow> v | None \<Rightarrow> placeholder n) @ instantiate args T"

definition braceFree :: "string \<Rightarrow> bool" where
  "braceFree t = (CHR ''{'' \<notin> set t \<and> CHR ''}'' \<notin> set t)"

text \<open>
  A piece of a template is plain when a literal piece holds no opening brace and the
  name of a placeholder holds no brace.
\<close>

fun plain :: "segment \<Rightarrow> bool" where
  "plain (Lit t) = (CHR ''{'' \<notin> set t)"
| "plain (Hole n) = braceFree n"

definition fill :: "string \<Rightarrow> string \<Rightarrow> segment list \<Rightarrow> segment list" where
  "fill n v T = map (\<lambda>seg. if seg = Hole n then Lit v else seg) T"

section \<open>Example messages and servers\<close>

definition initializeRequest :: JSONRPCRequest where
  "initializeRequest =
     \<lparr>JSONRPCRequest.JSONRPC = ''2.0'', ID = Some (JString ''init''),
      Method = ''initialize'', Params = None\<rparr>"

definition initializedNotification :: JSONRPCRequest where
  "initializedNotification =
     \<lparr>JSONRPCRequest.JSONRPC = ''2.0'', ID = None, Method = ''initialized'', Params = None\<rparr>"

definition unknownNotification :: JSONRPCRequest where
  "unknownNotification =
     \<lparr>JSONRPCRequest.JSONRPC = ''2.0'', ID = None, Method = ''unknown/method'', Params = None\<rparr>"

definition listRequest :: "string \<Rightarrow> JSONRPCRequest" where
  "listRequest i =
     \<lparr>JSONRPCRequest.JSONRPC = ''2.0'', ID = Some (JString i),
      Method = ''prompts/list'', Params = None\<rparr>"

definition getRequest :: "string \<Rightarrow> JSONRPCRequest" where
  "getRequest n =
     \<lparr>JSONRPCRequest.JSONRPC = ''2.0'', ID = Some (JString ''1''),
      Method = ''prompts/get'', Params = Some (JObject [(''name'', JString n)])\<rparr>"

definition getRequestWithoutParams :: JSONRPCRequest where
  "getRequestWithoutParams =
     \<lparr>JSONRPCRequest.JSONRPC = ''2.0'', ID = Some (JString ''1''),
      Method = ''prompts/get'', Params = None\<rparr>"

definition clientParams :: json where
  "clientParams =
     JObject [(''capabilities'', JObject []),
              (''clientInfo'', JObject [(''name'', JString ''x''), (''version'', JString ''1'')]),
              (''protocolVersion'', JString ''2024-11-05'')]"

text \<open>Lines of standard input and the requests they decode to.\<close>

definition line_initialize :: string where
  \<open>line_initialize = ''{"jsonrpc":"2.0","id":"init","method":"initialize"}''\<close>

definition line_initialized :: string where
  \<open>line_initialized = ''{"jsonrpc":"2.0","method":"initialized"}''\<close>

definition line_unknown :: string where
  \<open>line_unknown = ''{"jsonrpc":"2.0","method":"unknown/method"}''\<close>

definition line_list :: string where
  \<open>line_list = ''{"jsonrpc":"2.0","id":"1","method":"prompts/list"}''\<close>

definition exampleLines :: "(string \<times> JSONRPCRequest) list" where
  "exampleLines =
     [(line_initialize, initializeRequest),
      (line_initialized, initializedNotification),
      (line_unknown, unknownNotification),
      (line_list, listRequest ''1'')]"


text \<open>
  A JSON library for the examples. It decodes the lines of \<open>exampleLines\<close>, the
  initialize parameters \<open>clientParams\<close> and the parameters of \<open>getRequest\<close>, and
  reports an error on every other input.
\<close>

definition exampleJSON :: encoding_json where
  "exampleJSON =
     \<lparr>unmarshalRequest = map_of exampleLines,
      unmarshalBatch = (\<lambda>body. None),
      unmarshalInitializeParams = map_of
        [(clientParams,
          \<lparr>InitializeParams.ProtocolVersion = ''2024-11-05'',
           Capabilities = \<lparr>Roots = None, Sampling = None\<rparr>,
           ClientInfo = \<lparr>ClientInfo.Name = ''x'', Version = ''1''\<rparr>\<rparr>)],
      unmarshalGetPromptParams =
        (\<lambda>p. case p of
               JObject [(k, JString n)] \<Rightarrow>
                 if k = ''name'' then Some \<lparr>GetPromptParams.Name = n, Arguments = []\<rparr>
                 else None
             | _ \<Rightarrow> None)\<rparr>"

definition testServer :: Server where
  "testServer = NewServer ''test-server'' ''1.0.0''"

text \<open>The handshake: an initialize request, then the initialized notification.\<close>

definition handshake :: "Server \<Rightarrow> Server" where
  "handshake s =
     dispatchAll exampleJSON background s [initializeRequest, initializedNotification]"

definition greeting :: PromptDefinition where
  "greeting =
     \<lparr>PromptDefinition.Name = ''greeting'', Description = ''Greeting prompt'',
      Arguments = [], Content = ''Hello, {{name}}! Welcome to {{place}}.''\<rparr>"

definition emptyPrompt :: PromptDefinition where
  "emptyPrompt =
     \<lparr>PromptDefinition.Name = ''empty'', Description = ''Empty prompt'',
      Arguments = [], Content = []\<rparr>"

definition chainPrompt :: PromptDefinition where
  "chainPrompt =
     \<lparr>PromptDefinition.Name = ''chain'', Description = ''Chained prompt'',
      Arguments = [], Content = ''{{a}}''\<rparr>"

definition unnamedPrompt :: PromptDefinition where
  "unnamedPrompt =
     \<lparr>PromptDefinition.Name = [], Description = ''Unnamed prompt'',
      Arguments = [], Content = ''hello''\<rparr>"

section \<open>Dispatcher: what a dispatched message changes\<close>

lemmas example_defs =
  initializeRequest_def initializedNotification_def unknownNotification_def listRequest_def
  getRequest_def getRequestWithoutParams_def clientParams_def exampleLines_def exampleJSON_def
  testServer_def greeting_def emptyPrompt_def unnamedPrompt_def chainPrompt_def background_def
  handshake_def
  line_initialize_def line_initialized_def line_unknown_def line_list_def

lemmas dispatcher_defs =
  handleRequest_def handleInitialize_def handlePromptsList_def handlePromptsGet_def
  initializeParamsOf_def getPromptParamsOf_def zeroInitializeParams_def zeroGetPromptParams_def
  errorResponse_def Execute_def ListPrompts_def NewServer_def NewPromptRegistry_def
  RegisterPrompt_def Register_def ToPrompt_def CreateHandler_def

lemma handleRequest_initialized:
  "initialized (snd (handleRequest js ctx s request)) =
     (initialized s \<or> Method request = ''initialized'')"
  by (simp add: handleRequest_def)

lemma handleRequest_frame:
  "name (snd (handleRequest js ctx s request)) = name s"
  "version (snd (handleRequest js ctx s request)) = version s"
  "protocolVersion (snd (handleRequest js ctx s request)) = protocolVersion s"
  "promptRegistry (snd (handleRequest js ctx s request)) = promptRegistry s"
  by (simp_all add: handleRequest_def)

lemma dispatchAll_initialized:
  "initialized (dispatchAll js ctx s rs) =
     (initialized s \<or> ''initialized'' \<in> set (map Method rs))"
  by (induction rs arbitrary: s) (auto simp: handleRequest_initialized)

lemma dispatchAll_append:
  "dispatchAll js ctx s (xs @ ys) = dispatchAll js ctx (dispatchAll js ctx s xs) ys"
  by (induction xs arbitrary: s) auto

lemma reachable_fields:
  "reachable n v s \<Longrightarrow> name s = n \<and> version s = v \<and> protocolVersion s = ''2025-03-26''"
  by (induction rule: reachable.induct)
     (simp_all add: NewServer_def RegisterPrompt_def handleRequest_frame)

lemma handleRequest_response_None:
  "fst (handleRequest js ctx s request) = None \<longleftrightarrow> Method request = ''initialized''"
  by (simp add: handleRequest_def)

lemma handleRequest_response_ID:
  "fst (handleRequest js ctx s request) = Some response \<Longrightarrow>
     JSONRPCResponse.ID response = JSONRPCRequest.ID request"
  by (auto simp: handleRequest_def handleInitialize_def handlePromptsList_def handlePromptsGet_def
      errorResponse_def split: if_splits option.splits sum.splits)

section \<open>The initialized flag\<close>

text \<open>
  Claim C2, as amended. The flag is false on a new server. After a dispatched message
  it is true exactly when it was true before or the method of the message is
  \<^verbatim>\<open>initialized\<close>, whether or not \<^verbatim>\<open>initialize\<close> was called before and whether
  or not the message carries an id; so after any sequence of messages it is true exactly
  when it was true at the start or the sequence holds such a message, and it never
  returns to false.
\<close>

theorem initialized_flag_lifecycle:
  "initialized (NewServer n v) = False \<and>
   initialized (snd (handleRequest js ctx s request)) =
     (initialized s \<or> Method request = ''initialized'') \<and>
   initialized (dispatchAll js ctx s rs) =
     (initialized s \<or> ''initialized'' \<in> set (map Method rs))"
  by (simp add: handleRequest_initialized dispatchAll_initialized NewServer_def)

text \<open>The flag after two message sequences on a new server.\<close>

theorem initialized_flag_lifecycle_witness:
  "initialized (dispatchAll exampleJSON background testServer
      [initializeRequest, listRequest ''1'']) = False \<and>
   initialized (dispatchAll exampleJSON background testServer
      [initializeRequest, initializedNotification, listRequest ''1'', unknownNotification]) = True"
  using initialized_flag_lifecycle [of "''test-server''" "''1.0.0''" exampleJSON background
      testServer initializeRequest "[initializeRequest, listRequest ''1'']"]
    initialized_flag_lifecycle [of "''test-server''" "''1.0.0''" exampleJSON background
      testServer initializeRequest
      "[initializeRequest, initializedNotification, listRequest ''1'', unknownNotification]"]
  by (simp add: example_defs NewServer_def)

text \<open>
  The claim as first stated fails: one \<^verbatim>\<open>initialized\<close> notification on a new server
  sets the flag, although no \<^verbatim>\<open>initialize\<close> request was ever dispatched.
\<close>

theorem initialized_without_initialize:
  "initialized (dispatchAll exampleJSON background testServer [initializedNotification]) \<and>
   ''initialize'' \<notin> set (map Method [initializedNotification])"
  by (simp add: handleRequest_def initializedNotification_def)

section \<open>The prompt methods before the handshake\<close>

text \<open>
  Claim C3. On a server whose flag is false, after any history of dispatched messages
  none of which has the method \<^verbatim>\<open>initialized\<close> (the empty history gives every
  state with a false flag), a \<^verbatim>\<open>prompts/list\<close> or \<^verbatim>\<open>prompts/get\<close> message is
  answered by the error -32002 with the id of the message, and the server is left as it
  was.
\<close>

theorem prompts_gated_until_initialized:
  assumes "\<not> initialized s"
    and "''initialized'' \<notin> set (map Method history)"
    and "Method request = ''prompts/list'' \<or> Method request = ''prompts/get''"
  shows "handleRequest js ctx (dispatchAll js ctx' s history) request =
     (Some \<lparr>JSONRPCResponse.JSONRPC = ''2.0'', ID = JSONRPCRequest.ID request, Result = None,
            Error = Some \<lparr>Code = - 32002, Message = ''Server not initialized'',
                          Data = None\<rparr>\<rparr>,
      dispatchAll js ctx' s history)"
proof -
  have "\<not> initialized (dispatchAll js ctx' s history)"
    using assms(1,2) by (simp add: dispatchAll_initialized)
  with assms(3) show ?thesis
    by (auto simp: handleRequest_def errorResponse_def)
qed

text \<open>A \<^verbatim>\<open>prompts/get\<close> request after \<^verbatim>\<open>initialize\<close> and an unknown notification.\<close>

theorem prompts_gated_until_initialized_witness:
  "handleRequest exampleJSON background
     (dispatchAll exampleJSON background testServer [initializeRequest, unknownNotification])
     (getRequest ''greeting'') =
     (Some \<lparr>JSONRPCResponse.JSONRPC = ''2.0'', ID = Some (JString ''1''), Result = None,
            Error = Some \<lparr>Code = - 32002, Message = ''Server not initialized'',
                          Data = None\<rparr>\<rparr>,
      testServer)"
proof -
  have "\<not> initialized testServer"
    by (simp add: testServer_def NewServer_def)
  moreover have "''initialized'' \<notin> set (map Method [initializeRequest, unknownNotification])"
    by (simp add: initializeRequest_def unknownNotification_def)
  moreover have "Method (getRequest ''greeting'') = ''prompts/list'' \<or>
      Method (getRequest ''greeting'') = ''prompts/get''"
    by (simp add: getRequest_def)
  ultimately have "handleRequest exampleJSON background
     (dispatchAll exampleJSON background testServer [initializeRequest, unknownNotification])
     (getRequest ''greeting'') =
     (Some \<lparr>JSONRPCResponse.JSONRPC = ''2.0'', ID = JSONRPCRequest.ID (getRequest ''greeting''),
            Result = None,
            Error = Some \<lparr>Code = - 32002, Message = ''Server not initialized'',
                          Data = None\<rparr>\<rparr>,
      dispatchAll exampleJSON background testServer [initializeRequest, unknownNotification])"
    by (rule prompts_gated_until_initialized)
  moreover have "dispatchAll exampleJSON background testServer
      [initializeRequest, unknownNotification] = testServer"
    by (simp add: handleRequest_def initializeRequest_def unknownNotification_def)
  ultimately show ?thesis
    by (simp add: getRequest_def)
qed

section \<open>The initialize request\<close>

text \<open>
  Claim C7. On every server made by \<open>NewServer n v\<close>, whatever was registered or
  dispatched since, an \<^verbatim>\<open>initialize\<close> message whose parameters are absent or decode
  without error is answered by a result with the protocol version \<^verbatim>\<open>2025-03-26\<close>, a
  prompts capability and the server information \<open>n\<close> and \<open>v\<close>, whatever version the
  client asked for; the server is left unchanged.
\<close>

theorem initialize_result:
  assumes "reachable n v s"
    and "Method request = ''initialize''"
    and "Params request = None \<or>
         (\<exists>p params. Params request = Some p \<and> unmarshalInitializeParams js p = Some params)"
  shows "handleRequest js ctx s request =
     (Some \<lparr>JSONRPCResponse.JSONRPC = ''2.0'', ID = JSONRPCRequest.ID request,
            Result = Some (InitializeResultV
              \<lparr>InitializeResult.ProtocolVersion = ''2025-03-26'',
               Capabilities =
                 \<lparr>ServerCapabilities.Prompts = Some \<lparr>PromptsCapability.ListChanged = False\<rparr>,
                  Tools = None\<rparr>,
               ServerInfo = \<lparr>ServerInfo.Name = n, Version = v\<rparr>\<rparr>),
            Error = None\<rparr>,
      s)"
proof -
  from assms(3) obtain params where "initializeParamsOf js request = Some params"
    by (auto simp: initializeParamsOf_def)
  with assms(2) reachable_fields [OF assms(1)] show ?thesis
    by (simp add: handleRequest_def handleInitialize_def)
qed

text \<open>A client that asks for the protocol version \<^verbatim>\<open>2024-11-05\<close>.\<close>

theorem initialize_result_witness:
  "handleRequest exampleJSON background
     (dispatchAll exampleJSON background testServer [initializedNotification])
     (initializeRequest\<lparr>Params := Some clientParams\<rparr>) =
     (Some \<lparr>JSONRPCResponse.JSONRPC = ''2.0'', ID = Some (JString ''init''),
            Result = Some (InitializeResultV
              \<lparr>InitializeResult.ProtocolVersion = ''2025-03-26'',
               Capabilities =
                 \<lparr>ServerCapabilities.Prompts = Some \<lparr>PromptsCapability.ListChanged = False\<rparr>,
                  Tools = None\<rparr>,
               ServerInfo = \<lparr>ServerInfo.Name = ''test-server'', Version = ''1.0.0''\<rparr>\<rparr>),
            Error = None\<rparr>,
      dispatchAll exampleJSON background testServer [initializedNotification])"
proof -
  have "reachable ''test-server'' ''1.0.0''
      (dispatchAll exampleJSON background testServer [initializedNotification])"
    unfolding testServer_def by (simp add: reachable_new reachable_dispatch)
  moreover have "Method (initializeRequest\<lparr>Params := Some clientParams\<rparr>) = ''initialize''"
    by (simp add: initializeRequest_def)
  moreover have "Params (initializeRequest\<lparr>Params := Some clientParams\<rparr>) = None \<or>
      (\<exists>p params. Params (initializeRequest\<lparr>Params := Some clientParams\<rparr>) = Some p \<and>
         unmarshalInitializeParams exampleJSON p = Some params)"
    by (simp add: initializeRequest_def exampleJSON_def)
  ultimately show ?thesis
    using initialize_result [of "''test-server''" "''1.0.0''" _
        "initializeRequest\<lparr>Params := Some clientParams\<rparr>" exampleJSON background]
    by (simp add: initializeRequest_def)
qed


section \<open>Failures of prompts/get\<close>

text \<open>
  Claim C4, as amended. In the initialized state, a \<^verbatim>\<open>prompts/get\<close> message whose
  parameters decode and whose execution by the registry fails is answered by the error
  -32603; the text of the failure is the \<^verbatim>\<open>message\<close> of the error and its \<^verbatim>\<open>data\<close>
  field is absent. For a name without a registered handler the text is
  \<^verbatim>\<open>prompt not found: \<close> followed by the name. The server is left unchanged.
\<close>

theorem prompts_get_failure_response:
  assumes "initialized s"
    and "Method request = ''prompts/get''"
    and "getPromptParamsOf js request = Some params"
    and "Execute (promptRegistry s) ctx (GetPromptParams.Name params)
           (GetPromptParams.Arguments params) = Inl err"
  shows "handleRequest js ctx s request =
     (Some \<lparr>JSONRPCResponse.JSONRPC = ''2.0'', ID = JSONRPCRequest.ID request, Result = None,
            Error = Some \<lparr>Code = - 32603, Message = errorText err, Data = None\<rparr>\<rparr>, s) \<and>
     (map_of (handlers (promptRegistry s)) (GetPromptParams.Name params) = None \<longrightarrow>
        errorText err = ''prompt not found: '' @ GetPromptParams.Name params)"
  using assms
  by (auto simp: handleRequest_def handlePromptsGet_def errorResponse_def Execute_def)

text \<open>A prompt name that was never registered, after the handshake.\<close>

theorem prompts_get_failure_response_witness:
  "handleRequest exampleJSON background (handshake testServer) (getRequest ''unknown-prompt'') =
     (Some \<lparr>JSONRPCResponse.JSONRPC = ''2.0'', ID = Some (JString ''1''), Result = None,
            Error = Some \<lparr>Code = - 32603, Message = ''prompt not found: unknown-prompt'',
                          Data = None\<rparr>\<rparr>,
      handshake testServer)"
proof -
  let ?params = "\<lparr>GetPromptParams.Name = ''unknown-prompt'', Arguments = []\<rparr>"
  have "initialized (handshake testServer)"
    by (simp add: handshake_def handleRequest_initialized initializedNotification_def)
  moreover have "Method (getRequest ''unknown-prompt'') = ''prompts/get''"
    by (simp add: getRequest_def)
  moreover have "getPromptParamsOf exampleJSON (getRequest ''unknown-prompt'') = Some ?params"
    by (simp add: getPromptParamsOf_def getRequest_def exampleJSON_def)
  moreover have "promptRegistry (handshake testServer) = NewPromptRegistry"
    by (simp add: handshake_def handleRequest_frame testServer_def NewServer_def)
  then have "Execute (promptRegistry (handshake testServer)) background
      (GetPromptParams.Name ?params) (GetPromptParams.Arguments ?params) =
      Inl (ErrorString ''prompt not found: unknown-prompt'')"
    by (simp add: Execute_def NewPromptRegistry_def)
  ultimately show ?thesis
    using prompts_get_failure_response [of "handshake testServer"
        "getRequest ''unknown-prompt''" exampleJSON ?params background
        "ErrorString ''prompt not found: unknown-prompt''"]
    by (simp add: getRequest_def)
qed

text \<open>
  The claim as first stated fails: the handler of a registered prompt without content
  fails, and the response carries the text of the failure as its message and no data.
\<close>

theorem prompts_get_failure_has_no_data:
  "Execute (promptRegistry (handshake
       (RegisterPrompt testServer (ToPrompt emptyPrompt) (CreateHandler emptyPrompt))))
     background ''empty'' [] =
     Inl (ErrorString ''no content available for prompt: empty'') \<and>
   fst (handleRequest exampleJSON background
     (handshake (RegisterPrompt testServer (ToPrompt emptyPrompt) (CreateHandler emptyPrompt)))
     (getRequest ''empty'')) =
     Some \<lparr>JSONRPCResponse.JSONRPC = ''2.0'', ID = Some (JString ''1''), Result = None,
           Error = Some \<lparr>Code = - 32603,
                         Message = ''no content available for prompt: empty'',
                         Data = None\<rparr>\<rparr>"
  by (simp add: example_defs dispatcher_defs)

section \<open>prompts/get without parameters\<close>

text \<open>
  Claim C9, as amended. In the initialized state, a \<^verbatim>\<open>prompts/get\<close> message without
  parameters is never answered by -32602: the registry executes the empty name with an
  empty argument map, and the response is the result of that execution, or the error
  -32603 with the text of its failure. When no handler is registered under the empty
  name, the response is the error -32603 with the message \<^verbatim>\<open>prompt not found: \<close>.
\<close>

theorem prompts_get_without_params:
  assumes "initialized s"
    and "Method request = ''prompts/get''"
    and "Params request = None"
  shows "handleRequest js ctx s request =
     (Some (case Execute (promptRegistry s) ctx [] [] of
              Inl err \<Rightarrow>
                \<lparr>JSONRPCResponse.JSONRPC = ''2.0'', ID = JSONRPCRequest.ID request,
                 Result = None,
                 Error = Some \<lparr>Code = - 32603, Message = errorText err, Data = None\<rparr>\<rparr>
            | Inr result \<Rightarrow>
                \<lparr>JSONRPCResponse.JSONRPC = ''2.0'', ID = JSONRPCRequest.ID request,
                 Result = Some (GetPromptResultV result), Error = None\<rparr>), s) \<and>
     (map_of (handlers (promptRegistry s)) [] = None \<longrightarrow>
        handleRequest js ctx s request =
          (Some \<lparr>JSONRPCResponse.JSONRPC = ''2.0'', ID = JSONRPCRequest.ID request,
                 Result = None,
                 Error = Some \<lparr>Code = - 32603, Message = ''prompt not found: '',
                               Data = None\<rparr>\<rparr>, s))"
  using assms
  by (auto simp: handleRequest_def handlePromptsGet_def getPromptParamsOf_def
      zeroGetPromptParams_def errorResponse_def Execute_def split: sum.splits)

text \<open>A server without prompts, after the handshake.\<close>

theorem prompts_get_without_params_witness:
  "handleRequest exampleJSON background (handshake testServer) getRequestWithoutParams =
     (Some \<lparr>JSONRPCResponse.JSONRPC = ''2.0'', ID = Some (JString ''1''), Result = None,
            Error = Some \<lparr>Code = - 32603, Message = ''prompt not found: '', Data = None\<rparr>\<rparr>,
      handshake testServer)"
proof -
  have flag: "initialized (handshake testServer)"
    by (simp add: handshake_def handleRequest_initialized initializedNotification_def)
  have meth: "Method getRequestWithoutParams = ''prompts/get''"
    and absent_params: "Params getRequestWithoutParams = None"
    and ident: "JSONRPCRequest.ID getRequestWithoutParams = Some (JString ''1'')"
    by (simp_all add: getRequestWithoutParams_def)
  have "promptRegistry (handshake testServer) = NewPromptRegistry"
    by (simp add: handshake_def handleRequest_frame testServer_def NewServer_def)
  then have absent: "map_of (handlers (promptRegistry (handshake testServer))) [] = None"
    by (simp add: NewPromptRegistry_def)
  from prompts_get_without_params [OF flag meth absent_params, of exampleJSON background] absent
  show ?thesis
    unfolding ident by blast
qed

text \<open>
  The claim as first stated fails on a server that holds a prompt whose name is empty:
  the request without parameters executes that prompt and is answered by its result.
\<close>

theorem prompts_get_without_params_succeeds:
  "fst (handleRequest exampleJSON background
     (handshake (RegisterPrompt testServer (ToPrompt unnamedPrompt) (CreateHandler unnamedPrompt)))
     getRequestWithoutParams) =
     Some \<lparr>JSONRPCResponse.JSONRPC = ''2.0'', ID = Some (JString ''1''),
           Result = Some (GetPromptResultV
             \<lparr>GetPromptResult.Description = ''Unnamed prompt'',
              Messages = [\<lparr>Role = ''user'',
                           Content = \<lparr>Type = ''text'', Text = ''hello''\<rparr>\<rparr>]\<rparr>),
           Error = None\<rparr>"
  by (simp add: example_defs dispatcher_defs)


section \<open>The loop of the line transport\<close>

lemma Run_loop_live_aux:
  assumes "R = (case scanErr of
           None \<Rightarrow> None
         | Some err \<Rightarrow>
             if err \<noteq> EOF then Some (Wrapped ''error reading from stdin: '' err) else None)"
  shows "(\<forall>j\<le>length lines. ctx (k + j) = None) \<Longrightarrow>
     Run_loop js ctx k s lines scanErr = (R, handleLines js ctx s lines)"
proof (induction lines arbitrary: k s)
  case Nil
  then show ?case by (simp add: assms split: option.splits)
next
  case (Cons line rest)
  have k: "ctx k = None" using Cons.prems[rule_format, of 0] by simp
  have "\<forall>j\<le>length rest. ctx (Suc k + j) = None"
    using Cons.prems by (auto dest: spec[of _ "Suc j" for j])
  then have IH: "\<And>s'. Run_loop js ctx (Suc k) s' rest scanErr = (R, handleLines js ctx s' rest)"
    by (rule Cons.IH)
  show ?case
    by (simp add: k IH split: option.splits prod.splits)
qed

lemma Run_loop_live:
  "(\<forall>j\<le>length lines. ctx (k + j) = None) \<Longrightarrow>
     Run_loop js ctx k s lines scanErr =
       ((case scanErr of
           None \<Rightarrow> None
         | Some err \<Rightarrow>
             if err \<noteq> EOF then Some (Wrapped ''error reading from stdin: '' err) else None),
        handleLines js ctx s lines)"
  by (rule Run_loop_live_aux) simp_all


lemma handleLines_skips_empty:
  "handleLines js ctx s (filter (\<lambda>line. line \<noteq> []) lines) = handleLines js ctx s lines"
  by (induction lines arbitrary: s) (auto split: option.splits prod.splits)




section \<open>Empty lines\<close>

text \<open>
  Claim C10. An empty line that the loop reads while the context is live is skipped:
  the loop goes on with the next line on the same server and writes nothing for the
  empty one, so no parse error either. Hence, under a context that stays live, the
  returned error, the final server and the output are those of the input without its
  empty lines.
\<close>

theorem empty_line_skipped:
  "(ctx k = None \<longrightarrow>
      Run_loop js ctx k s ([] # rest) scanErr = Run_loop js ctx (Suc k) s rest scanErr) \<and>
   ((\<forall>k. ctx k = None) \<longrightarrow>
      Run js ctx s stdin scanErr = Run js ctx s (filter (\<lambda>line. line \<noteq> []) stdin) scanErr)"
proof -
  have "Run js ctx s stdin scanErr = Run js ctx s (filter (\<lambda>line. line \<noteq> []) stdin) scanErr"
    if "\<forall>k. ctx k = None"
    using that
      Run_loop_live [of stdin ctx 0 js s scanErr]
      Run_loop_live [of "filter (\<lambda>line. line \<noteq> []) stdin" ctx 0 js s scanErr]
    by (simp add: Run_def handleLines_skips_empty)
  then show ?thesis by simp
qed

text \<open>An input with two empty lines around a request.\<close>

theorem empty_line_skipped_witness:
  "Run_loop exampleJSON background 0 testServer [[], line_list] None =
     Run_loop exampleJSON background 1 testServer [line_list] None \<and>
   Run exampleJSON background testServer [[], line_list, []] None =
     (None, testServer,
      [\<lparr>JSONRPCResponse.JSONRPC = ''2.0'', ID = Some (JString ''1''), Result = None,
        Error = Some \<lparr>Code = - 32002, Message = ''Server not initialized'', Data = None\<rparr>\<rparr>])"
proof -
  have live: "\<forall>k. background k = None" by (simp add: background_def)
  have "Run exampleJSON background testServer (filter (\<lambda>line. line \<noteq> []) [[], line_list, []]) None =
     (None, testServer,
      [\<lparr>JSONRPCResponse.JSONRPC = ''2.0'', ID = Some (JString ''1''), Result = None,
        Error = Some \<lparr>Code = - 32002, Message = ''Server not initialized'', Data = None\<rparr>\<rparr>])"
    by (simp add: Run_def example_defs dispatcher_defs)
  then show ?thesis
    using empty_line_skipped [where ctx = background and k = 0 and js = exampleJSON
        and s = testServer and rest = "[line_list]" and scanErr = None, THEN conjunct1]
      empty_line_skipped [where ctx = background and js = exampleJSON and s = testServer
        and scanErr = None and stdin = "[[], line_list, []]", THEN conjunct2, THEN mp, OF live]
    by (simp add: background_def)
qed

section \<open>Notifications\<close>

text \<open>
  Claim C1: a message without an id, a notification, is never answered, on any
  transport and whatever its method. The HTTP transport keeps to it, the line transport
  does not: \<open>Run\<close> writes every response that \<open>handleRequest\<close> returns and never
  looks at the id, and \<open>handleRequest\<close> returns a response for every method but
  \<^verbatim>\<open>initialized\<close>. On standard input, a notification with an unknown method is
  answered by the error -32601 with a null id.
\<close>

theorem stdio_answers_notification:
  "Run exampleJSON background testServer [line_unknown] None =
     (None, testServer,
      [\<lparr>JSONRPCResponse.JSONRPC = ''2.0'', ID = None, Result = None,
        Error = Some \<lparr>Code = - 32601, Message = ''Method not found'', Data = None\<rparr>\<rparr>])"
  by (simp add: Run_def example_defs dispatcher_defs)

text \<open>The HTTP transport checks the id and sends no body for a single notification.\<close>

lemma http_notification_unanswered:
  "JSONRPCRequest.ID request = None \<Longrightarrow>
     fst (handleSingleRequest js ctx s request) =
       \<lparr>StatusCode = 202, ContentType = None, Body = NoBody\<rparr>"
  by (simp add: handleSingleRequest_def split: prod.splits)


section \<open>Batches on the HTTP transport\<close>

lemma batch_loop_append:
  "batch_loop js ctx s (xs @ ys) responses hasRequests =
     (case batch_loop js ctx s xs responses hasRequests of
        (responses', hasRequests', s') \<Rightarrow> batch_loop js ctx s' ys responses' hasRequests')"
  by (induction xs arbitrary: s responses hasRequests)
     (auto split: prod.splits option.splits)

lemma batch_loop_result:
  "batch_loop js ctx s batch [] False =
     (map (\<lambda>i. the (responseAt js ctx s batch i))
          (filter (\<lambda>i. answered (batch ! i)) [0..<length batch]),
      (\<exists>request\<in>set batch. JSONRPCRequest.ID request \<noteq> None),
      dispatchAll js ctx s batch)"
proof (induction batch rule: rev_induct)
  case Nil
  then show ?case by simp
next
  case (snoc x xs)
  have same: "map (\<lambda>i. the (responseAt js ctx s (xs @ [x]) i))
                (filter (\<lambda>i. answered ((xs @ [x]) ! i)) [0..<length xs]) =
              map (\<lambda>i. the (responseAt js ctx s xs i))
                (filter (\<lambda>i. answered (xs ! i)) [0..<length xs])"
  proof -
    have "filter (\<lambda>i. answered ((xs @ [x]) ! i)) [0..<length xs] =
          filter (\<lambda>i. answered (xs ! i)) [0..<length xs]"
      by (rule filter_cong) (simp_all add: nth_append)
    moreover have "\<And>i. i < length xs \<Longrightarrow>
        responseAt js ctx s (xs @ [x]) i = responseAt js ctx s xs i"
      by (simp add: responseAt_def nth_append)
    ultimately show ?thesis by (auto intro: map_cong)
  qed
  have last: "responseAt js ctx s (xs @ [x]) (length xs) =
      fst (handleRequest js ctx (dispatchAll js ctx s xs) x)"
    by (simp add: responseAt_def)
  obtain r s' where hr: "handleRequest js ctx (dispatchAll js ctx s xs) x = (r, s')"
    by (cases "handleRequest js ctx (dispatchAll js ctx s xs) x")
  have rNone: "r = None \<longleftrightarrow> Method x = ''initialized''"
    using handleRequest_response_None[of js ctx "dispatchAll js ctx s xs" x] hr by simp
  have resp: "map (\<lambda>i. the (responseAt js ctx s (xs @ [x]) i))
                (filter (\<lambda>i. answered ((xs @ [x]) ! i)) [0..<length (xs @ [x])]) =
              map (\<lambda>i. the (responseAt js ctx s xs i))
                (filter (\<lambda>i. answered (xs ! i)) [0..<length xs]) @
              (if answered x then [the r] else [])"
    using same last hr by simp
  show ?case
    apply (subst resp)
    apply (simp add: batch_loop_append snoc.IH hr dispatchAll_append)
    using rNone apply (auto simp: answered_def split: option.splits)
    done
qed

lemma responseAt_ID:
  assumes "i < length batch" and "answered (batch ! i)"
  shows "JSONRPCResponse.ID (the (responseAt js ctx s batch i)) = JSONRPCRequest.ID (batch ! i)"
proof -
  from assms(2) have "responseAt js ctx s batch i \<noteq> None"
    by (simp add: responseAt_def handleRequest_response_None answered_def)
  then obtain r where r: "responseAt js ctx s batch i = Some r" by auto
  then show ?thesis
    using handleRequest_response_ID[of js ctx _ "batch ! i" r] by (simp add: responseAt_def)
qed

lemma answered_IDs:
  "map (\<lambda>i. JSONRPCResponse.ID (the (responseAt js ctx s batch i)))
       (filter (\<lambda>i. answered (batch ! i)) [0..<length batch]) =
   map JSONRPCRequest.ID (filter answered batch)"
proof -
  have "map (\<lambda>i. JSONRPCResponse.ID (the (responseAt js ctx s batch i)))
          (filter (\<lambda>i. answered (batch ! i)) [0..<length batch]) =
        map (\<lambda>i. JSONRPCRequest.ID (batch ! i))
          (filter (\<lambda>i. answered (batch ! i)) [0..<length batch])"
    by (rule map_cong) (auto simp: responseAt_ID)
  also have "\<dots> = map JSONRPCRequest.ID
      (map ((!) batch) (filter (\<lambda>i. answered (batch ! i)) [0..<length batch]))"
    by simp
  also have "map ((!) batch) (filter (\<lambda>i. answered (batch ! i)) [0..<length batch]) =
      filter answered (map ((!) batch) [0..<length batch])"
    by (simp add: filter_map comp_def)
  also have "map ((!) batch) [0..<length batch] = batch"
    by (rule map_nth)
  finally show ?thesis .
qed

text \<open>
  Claim C5, as amended. The elements of a batch are dispatched in the order of the
  array, each on the server the elements before it have left. If no element carries an
  id, the HTTP response is 202 without a body. Otherwise it is 200 with a JSON array that
  holds exactly one response for every element that carries an id and whose method is
  not \<^verbatim>\<open>initialized\<close>, in the order of these elements and with their ids;
  notifications contribute no entry, and neither does an \<^verbatim>\<open>initialized\<close> element that
  carries an id.
\<close>

theorem batch_response:
  "handleBatchRequest js ctx s batch =
     (if \<forall>request\<in>set batch. JSONRPCRequest.ID request = None then
        \<lparr>StatusCode = 202, ContentType = None, Body = NoBody\<rparr>
      else
        \<lparr>StatusCode = 200, ContentType = Some ''application/json'',
         Body = JSONArray
           (map (\<lambda>i. the (responseAt js ctx s batch i))
                (filter (\<lambda>i. answered (batch ! i)) [0..<length batch]))\<rparr>,
      dispatchAll js ctx s batch) \<and>
   map JSONRPCResponse.ID
     (map (\<lambda>i. the (responseAt js ctx s batch i))
          (filter (\<lambda>i. answered (batch ! i)) [0..<length batch])) =
     map JSONRPCRequest.ID (filter answered batch) \<and>
   (\<forall>i<length batch. answered (batch ! i) \<longrightarrow> responseAt js ctx s batch i \<noteq> None)"
proof -
  have "handleBatchRequest js ctx s batch =
     (if \<forall>request\<in>set batch. JSONRPCRequest.ID request = None then
        \<lparr>StatusCode = 202, ContentType = None, Body = NoBody\<rparr>
      else
        \<lparr>StatusCode = 200, ContentType = Some ''application/json'',
         Body = JSONArray
           (map (\<lambda>i. the (responseAt js ctx s batch i))
                (filter (\<lambda>i. answered (batch ! i)) [0..<length batch]))\<rparr>,
      dispatchAll js ctx s batch)"
    by (simp add: handleBatchRequest_def batch_loop_result)
  moreover have "map JSONRPCResponse.ID
     (map (\<lambda>i. the (responseAt js ctx s batch i))
          (filter (\<lambda>i. answered (batch ! i)) [0..<length batch])) =
     map JSONRPCRequest.ID (filter answered batch)"
    using answered_IDs [of js ctx s batch] by (simp add: comp_def)
  moreover have "\<forall>i<length batch. answered (batch ! i) \<longrightarrow> responseAt js ctx s batch i \<noteq> None"
    by (simp add: responseAt_def handleRequest_response_None answered_def)
  ultimately show ?thesis by blast
qed

text \<open>A mixed batch after the handshake, and a batch of notifications.\<close>

theorem batch_response_witness:
  "fst (handleBatchRequest exampleJSON background (handshake testServer)
     [listRequest ''1'', initializedNotification, listRequest ''2'']) =
     \<lparr>StatusCode = 200, ContentType = Some ''application/json'',
      Body = JSONArray
        [\<lparr>JSONRPCResponse.JSONRPC = ''2.0'', ID = Some (JString ''1''),
          Result = Some (ListPromptsResultV \<lparr>Prompts = [], NextCursor = []\<rparr>),
          Error = None\<rparr>,
         \<lparr>JSONRPCResponse.JSONRPC = ''2.0'', ID = Some (JString ''2''),
          Result = Some (ListPromptsResultV \<lparr>Prompts = [], NextCursor = []\<rparr>),
          Error = None\<rparr>]\<rparr> \<and>
   fst (handleBatchRequest exampleJSON background testServer
     [initializedNotification, initializedNotification]) =
     \<lparr>StatusCode = 202, ContentType = None, Body = NoBody\<rparr>"
proof -
  let ?mixed = "[listRequest ''1'', initializedNotification, listRequest ''2'']"
  have upt3: "[0..<length ?mixed] = [0, 1, 2]"
    by (simp add: upt_rec)
  have "map (\<lambda>i. the (responseAt exampleJSON background (handshake testServer) ?mixed i))
          (filter (\<lambda>i. answered (?mixed ! i)) [0..<length ?mixed]) =
        [\<lparr>JSONRPCResponse.JSONRPC = ''2.0'', ID = Some (JString ''1''),
          Result = Some (ListPromptsResultV \<lparr>Prompts = [], NextCursor = []\<rparr>),
          Error = None\<rparr>,
         \<lparr>JSONRPCResponse.JSONRPC = ''2.0'', ID = Some (JString ''2''),
          Result = Some (ListPromptsResultV \<lparr>Prompts = [], NextCursor = []\<rparr>),
          Error = None\<rparr>]"
    unfolding upt3
    by (simp add: answered_def responseAt_def example_defs dispatcher_defs)
  moreover have "\<not> (\<forall>request\<in>set ?mixed. JSONRPCRequest.ID request = None)"
    by (simp add: listRequest_def)
  moreover have "\<forall>request\<in>set [initializedNotification, initializedNotification].
      JSONRPCRequest.ID request = None"
    by (simp add: initializedNotification_def)
  ultimately show ?thesis
    using batch_response [where js = exampleJSON and ctx = background
        and s = "handshake testServer" and batch = ?mixed, THEN conjunct1]
      batch_response [where js = exampleJSON and ctx = background and s = testServer
        and batch = "[initializedNotification, initializedNotification]", THEN conjunct1]
    by simp
qed

text \<open>
  The claim as first stated fails: a batch whose only element is an \<^verbatim>\<open>initialized\<close>
  message with an id is answered by 200 and an empty array.
\<close>

theorem batch_initialized_with_id_unanswered:
  "fst (handleBatchRequest exampleJSON background testServer
     [initializedNotification\<lparr>JSONRPCRequest.ID := Some (JString ''1'')\<rparr>]) =
     \<lparr>StatusCode = 200, ContentType = Some ''application/json'', Body = JSONArray []\<rparr>"
  by (simp add: handleBatchRequest_def handleRequest_def initializedNotification_def)


section \<open>The default prompt handler\<close>

lemma ReplaceAll_Nil: "old \<noteq> [] \<Longrightarrow> ReplaceAll [] old new = []"
  by (simp add: ReplaceAll.simps)

lemma ReplaceAll_match:
  assumes "old \<noteq> []"
  shows "ReplaceAll (old @ rest) old new = new @ ReplaceAll rest old new"
proof -
  have "old @ rest \<noteq> []" using assms by simp
  then show ?thesis using assms
    by (subst ReplaceAll.simps) simp
qed

lemma ReplaceAll_skip:
  assumes "old \<noteq> []" and "\<not> prefix old (c # s)"
  shows "ReplaceAll (c # s) old new = c # ReplaceAll s old new"
  using assms by (subst ReplaceAll.simps) simp

lemma ReplaceAll_absent:
  "old \<noteq> [] \<Longrightarrow> \<not> sublist old s \<Longrightarrow> ReplaceAll s old new = s"
proof (induction s)
  case Nil
  then show ?case by (simp add: ReplaceAll_Nil)
next
  case (Cons c s)
  then have "\<not> prefix old (c # s)" "\<not> sublist old s"
    by (auto simp: sublist_Cons_right)
  with Cons show ?case by (simp add: ReplaceAll_skip)
qed

lemma prefix_within:
  assumes "prefix old (front @ back)" and "length old \<le> length front"
  shows "prefix old front"
proof -
  from assms(1) obtain zs where eq: "front @ back = old @ zs"
    by (auto simp: prefix_def)
  have "take (length old) (front @ back) = take (length old) (old @ zs)"
    by (simp only: eq)
  with assms(2) have "take (length old) front = old"
    by simp
  then show ?thesis
    using take_is_prefix [of "length old" front] by simp
qed

lemma ReplaceAll_leftmost:
  assumes "old \<noteq> []"
  shows "\<not> sublist old (pre @ butlast old) \<Longrightarrow>
     ReplaceAll (pre @ old @ post) old new = pre @ new @ ReplaceAll post old new"
proof (induction pre)
  case Nil
  then show ?case by (simp add: ReplaceAll_match assms)
next
  case (Cons c pre)
  have later: "\<not> sublist old (pre @ butlast old)"
    using Cons.prems by (auto simp: sublist_Cons_right)
  have "\<not> prefix old (c # pre @ old @ post)"
  proof
    assume "prefix old (c # pre @ old @ post)"
    moreover have "old @ post = butlast old @ ([last old] @ post)"
      using append_butlast_last_id [OF assms] by (metis append.assoc)
    ultimately have "prefix old (((c # pre) @ butlast old) @ ([last old] @ post))"
      by simp
    moreover have "length old \<le> length ((c # pre) @ butlast old)"
      by simp
    ultimately have "prefix old ((c # pre) @ butlast old)"
      by (rule prefix_within)
    then have "sublist old ((c # pre) @ butlast old)"
      by (rule prefix_imp_sublist)
    with Cons.prems show False by simp
  qed
  then have "ReplaceAll ((c # pre) @ old @ post) old new =
      c # ReplaceAll (pre @ old @ post) old new"
    using assms by (simp add: ReplaceAll_skip)
  with Cons.IH [OF later] show ?case by simp
qed

text \<open>
  Every text that holds \<open>old\<close> has a leftmost occurrence of it, so \<open>ReplaceAll_absent\<close>
  and \<open>ReplaceAll_leftmost\<close> say what \<open>ReplaceAll\<close> returns on every text.
\<close>

lemma leftmost_occurrence:
  assumes "old \<noteq> []"
  shows "sublist old s \<Longrightarrow>
     \<exists>pre post. s = pre @ old @ post \<and> \<not> sublist old (pre @ butlast old)"
proof (induction s)
  case Nil
  with assms show ?case by simp
next
  case (Cons c s)
  show ?case
  proof (cases "prefix old (c # s)")
    case True
    then obtain post where "c # s = [] @ old @ post"
      by (auto simp: prefix_def)
    moreover have "\<not> sublist old ([] @ butlast old)"
    proof
      assume "sublist old ([] @ butlast old)"
      then have "sublist old (butlast old)"
        by simp
      then have "length old \<le> length (butlast old)"
        by (rule sublist_length_le)
      moreover have "length (butlast old) < length old"
        using assms by (cases old rule: rev_cases) auto
      ultimately show False by linarith
    qed
    ultimately show ?thesis by blast
  next
    case False
    with Cons.prems have "sublist old s"
      by (simp add: sublist_Cons_right)
    then obtain pre post where s: "s = pre @ old @ post"
      and left: "\<not> sublist old (pre @ butlast old)"
      using Cons.IH by blast
    have "\<not> prefix old ((c # pre) @ butlast old)"
    proof
      assume "prefix old ((c # pre) @ butlast old)"
      then have "prefix old (((c # pre) @ butlast old) @ ([last old] @ post))"
        by (rule prefix_prefix)
      moreover have "butlast old @ ([last old] @ post) = old @ post"
        using append_butlast_last_id [OF assms] by (metis append.assoc)
      then have "((c # pre) @ butlast old) @ ([last old] @ post) = c # s"
        unfolding s by simp
      ultimately have "prefix old (c # s)"
        by (simp only:)
      with False show False ..
    qed
    with left have "\<not> sublist old ((c # pre) @ butlast old)"
      by (simp add: sublist_Cons_right)
    moreover have "c # s = (c # pre) @ old @ post"
      by (simp add: s)
    ultimately show ?thesis by blast
  qed
qed

lemma placeholder_Cons: "placeholder n = CHR ''{'' # CHR ''{'' # n @ ''}}''"
  by (simp add: placeholder_def)

lemma placeholder_not_Nil: "placeholder n \<noteq> []"
  by (simp add: placeholder_def)

lemma ReplaceAll_skip_other:
  "c \<noteq> CHR ''{'' \<Longrightarrow>
     ReplaceAll (c # s) (placeholder n) v = c # ReplaceAll s (placeholder n) v"
  by (rule ReplaceAll_skip) (simp_all add: placeholder_Cons)

lemma ReplaceAll_literal:
  "CHR ''{'' \<notin> set t \<Longrightarrow>
     ReplaceAll (t @ rest) (placeholder n) v = t @ ReplaceAll rest (placeholder n) v"
  by (induction t) (auto simp: ReplaceAll_skip_other)

lemma name_prefix_eq:
  "braceFree n \<Longrightarrow> braceFree m \<Longrightarrow> prefix (n @ ''}}'') (m @ ''}}'' @ rest) \<Longrightarrow> n = m"
proof (induction n arbitrary: m)
  case Nil
  then show ?case by (cases m) (auto simp: braceFree_def)
next
  case (Cons a n)
  then show ?case by (cases m) (auto simp: braceFree_def)
qed

lemma ReplaceAll_other_hole:
  assumes "braceFree n" and "braceFree m" and "m \<noteq> n"
  shows "ReplaceAll (placeholder m @ rest) (placeholder n) v =
           placeholder m @ ReplaceAll rest (placeholder n) v"
proof -
  let ?ph = "placeholder n"
  have tail: "ReplaceAll ((m @ ''}}'') @ rest) ?ph v = (m @ ''}}'') @ ReplaceAll rest ?ph v"
    using assms(2) by (intro ReplaceAll_literal) (simp add: braceFree_def)
  have second: "\<not> prefix ?ph (CHR ''{'' # m @ ''}}'' @ rest)"
    using assms(2) by (cases m) (auto simp: placeholder_Cons braceFree_def)
  have first: "\<not> prefix ?ph (CHR ''{'' # CHR ''{'' # m @ ''}}'' @ rest)"
  proof
    assume "prefix ?ph (CHR ''{'' # CHR ''{'' # m @ ''}}'' @ rest)"
    then have "prefix (n @ ''}}'') (m @ ''}}'' @ rest)"
      by (simp add: placeholder_Cons)
    with assms show False by (auto dest: name_prefix_eq)
  qed
  have "ReplaceAll (placeholder m @ rest) ?ph v =
          ReplaceAll (CHR ''{'' # CHR ''{'' # m @ ''}}'' @ rest) ?ph v"
    by (simp add: placeholder_Cons)
  also have "\<dots> = CHR ''{'' # ReplaceAll (CHR ''{'' # m @ ''}}'' @ rest) ?ph v"
    using first by (intro ReplaceAll_skip) (simp_all add: placeholder_not_Nil)
  also have "\<dots> = CHR ''{'' # CHR ''{'' # ReplaceAll (m @ ''}}'' @ rest) ?ph v"
    using second by (simp add: ReplaceAll_skip placeholder_not_Nil)
  also have "\<dots> = placeholder m @ ReplaceAll rest ?ph v"
    using tail by (simp add: placeholder_Cons)
  finally show ?thesis .
qed

lemma ReplaceAll_render:
  assumes "braceFree n" and "\<forall>seg\<in>set T. plain seg"
  shows "ReplaceAll (render T) (placeholder n) v = render (fill n v T)"
  using assms(2)
proof (induction T)
  case Nil
  then show ?case by (simp add: fill_def ReplaceAll_Nil placeholder_not_Nil)
next
  case (Cons seg T)
  then have IH: "ReplaceAll (render T) (placeholder n) v = render (fill n v T)" by simp
  show ?case
  proof (cases seg)
    case (Lit t)
    with Cons.prems have "CHR ''{'' \<notin> set t" by simp
    with IH Lit show ?thesis by (simp add: ReplaceAll_literal fill_def)
  next
    case (Hole m)
    with Cons.prems have m: "braceFree m" by simp
    show ?thesis
    proof (cases "m = n")
      case True
      with IH Hole show ?thesis
        by (simp add: ReplaceAll_match placeholder_not_Nil fill_def)
    next
      case False
      with IH Hole m assms(1) show ?thesis
        by (simp add: ReplaceAll_other_hole fill_def)
    qed
  qed
qed

lemma fill_plain:
  "CHR ''{'' \<notin> set v \<Longrightarrow> \<forall>seg\<in>set T. plain seg \<Longrightarrow> \<forall>seg\<in>set (fill n v T). plain seg"
  by (auto simp: fill_def)

lemma instantiate_Cons: "instantiate ((n, v) # args) T = instantiate args (fill n v T)"
  by (induction T rule: render.induct) (auto simp: fill_def)

lemma instantiate_Nil: "instantiate [] T = render T"
  by (induction T rule: render.induct) auto

lemma fold_ReplaceAll_render:
  assumes "\<forall>seg\<in>set T. plain seg"
    and "\<forall>(n, v)\<in>set args. braceFree n \<and> CHR ''{'' \<notin> set v"
  shows "fold (\<lambda>(name, value) content. ReplaceAll content (placeholder name) value)
           args (render T) = instantiate args T"
  using assms
proof (induction args arbitrary: T)
  case Nil
  then show ?case by (simp add: instantiate_Nil)
next
  case (Cons a args)
  obtain n v where a: "a = (n, v)" by (cases a)
  with Cons.prems have nv: "braceFree n" "CHR ''{'' \<notin> set v" by auto
  have "fold (\<lambda>(name, value) content. ReplaceAll content (placeholder name) value)
          (a # args) (render T) =
        fold (\<lambda>(name, value) content. ReplaceAll content (placeholder name) value)
          args (render (fill n v T))"
    using a nv Cons.prems(1) by (simp add: ReplaceAll_render)
  also have "\<dots> = instantiate args (fill n v T)"
    using Cons.prems nv by (intro Cons.IH fill_plain) auto
  finally show ?case by (simp add: a instantiate_Cons)
qed

text \<open>
  Claim C8, as amended. The handler of a definition without content fails with an
  error. The handler of a definition with content returns the description and one
  message of the role \<^verbatim>\<open>user\<close> and the type \<^verbatim>\<open>text\<close>; its text is the content after
  \<^verbatim>\<open>strings.ReplaceAll\<close> has been applied once for each argument of the map, in the
  order in which the map is visited, each time replacing every occurrence of the
  placeholder of the argument in the text so far by its value: a text without the
  placeholder is left as it is, and otherwise the leftmost occurrence is replaced and the
  replacement goes on behind it. When the literal pieces of the content and the values
  hold no opening brace and the names hold no brace, the text is the content with the
  placeholder of every argument of the map replaced by its value and every other
  placeholder kept, in whatever order the map is visited.
\<close>

theorem CreateHandler_result:
  "(Content d = [] \<longrightarrow>
      CreateHandler d ctx args =
        Inl (ErrorString (''no content available for prompt: '' @ PromptDefinition.Name d))) \<and>
   (Content d \<noteq> [] \<longrightarrow>
      CreateHandler d ctx args =
        Inr \<lparr>GetPromptResult.Description = PromptDefinition.Description d,
             Messages =
               [\<lparr>Role = ''user'',
                 Content =
                   \<lparr>Type = ''text'',
                    Text = fold (\<lambda>(name, value) content.
                                   ReplaceAll content (placeholder name) value)
                                args (Content d)\<rparr>\<rparr>]\<rparr>) \<and>
   (\<not> sublist (placeholder n) s \<longrightarrow> ReplaceAll s (placeholder n) v = s) \<and>
   (\<not> sublist (placeholder n) (pre @ butlast (placeholder n)) \<longrightarrow>
      ReplaceAll (pre @ placeholder n @ post) (placeholder n) v =
        pre @ v @ ReplaceAll post (placeholder n) v) \<and>
   (Content d \<noteq> [] \<and> Content d = render T \<and> (\<forall>seg\<in>set T. plain seg) \<and>
    (\<forall>(n, v)\<in>set args. braceFree n \<and> CHR ''{'' \<notin> set v) \<longrightarrow>
      CreateHandler d ctx args =
        Inr \<lparr>GetPromptResult.Description = PromptDefinition.Description d,
             Messages =
               [\<lparr>Role = ''user'',
                 Content = \<lparr>Type = ''text'', Text = instantiate args T\<rparr>\<rparr>]\<rparr>)"
proof -
  have "fold (\<lambda>(name, value) content. ReplaceAll content (placeholder name) value)
          args (Content d) = instantiate args T"
    if "Content d = render T" "\<forall>seg\<in>set T. plain seg"
       "\<forall>(n, v)\<in>set args. braceFree n \<and> CHR ''{'' \<notin> set v"
    using that fold_ReplaceAll_render [of T args] by simp
  then show ?thesis
    using ReplaceAll_leftmost [OF placeholder_not_Nil, of n pre post v]
    by (simp add: CreateHandler_def ReplaceAll_absent placeholder_not_Nil)
qed

text \<open>
  The greeting of the tests with one and with both arguments, a prompt without content,
  and single replacements on a text without and with the placeholder.
\<close>

theorem CreateHandler_result_witness:
  "CreateHandler greeting background [(''name'', ''Alice'')] =
     Inr \<lparr>GetPromptResult.Description = ''Greeting prompt'',
          Messages =
            [\<lparr>Role = ''user'',
              Content = \<lparr>Type = ''text'',
                         Text = ''Hello, Alice! Welcome to {{place}}.''\<rparr>\<rparr>]\<rparr> \<and>
   CreateHandler greeting background [(''place'', ''Wonderland''), (''name'', ''Alice'')] =
     Inr \<lparr>GetPromptResult.Description = ''Greeting prompt'',
          Messages =
            [\<lparr>Role = ''user'',
              Content = \<lparr>Type = ''text'',
                         Text = ''Hello, Alice! Welcome to Wonderland.''\<rparr>\<rparr>]\<rparr> \<and>
   CreateHandler emptyPrompt background [(''name'', ''Alice'')] =
     Inl (ErrorString ''no content available for prompt: empty'') \<and>
   ReplaceAll ''Welcome to {{place}}.'' (placeholder ''name'') ''Alice'' =
     ''Welcome to {{place}}.'' \<and>
   ReplaceAll ''{{name}} and {{name}}'' (placeholder ''name'') ''Alice'' =
     ''Alice'' @ ReplaceAll '' and {{name}}'' (placeholder ''name'') ''Alice''"
proof -
  let ?T = "[Lit ''Hello, '', Hole ''name'', Lit ''! Welcome to '', Hole ''place'', Lit ''.'']"
  have content: "Content greeting \<noteq> [] \<and> Content greeting = render ?T \<and>
      (\<forall>seg\<in>set ?T. plain seg)"
    by (simp add: greeting_def placeholder_def braceFree_def)
  have one: "\<forall>(n, v)\<in>set [(''name'', ''Alice'')]. braceFree n \<and> CHR ''{'' \<notin> set v"
    and two: "\<forall>(n, v)\<in>set [(''place'', ''Wonderland''), (''name'', ''Alice'')].
      braceFree n \<and> CHR ''{'' \<notin> set v"
    by (simp_all add: braceFree_def)
  have empty: "Content emptyPrompt = []"
    by (simp add: emptyPrompt_def)
  have absent: "\<not> sublist (placeholder ''name'') ''Welcome to {{place}}.''"
    by (simp add: placeholder_def sublist_Cons_right)
  have leftmost: "\<not> sublist (placeholder ''name'') ([] @ butlast (placeholder ''name''))"
    by (simp add: placeholder_def sublist_Cons_right)
  have r1: "CreateHandler greeting background [(''name'', ''Alice'')] =
        Inr \<lparr>GetPromptResult.Description = PromptDefinition.Description greeting,
             Messages =
               [\<lparr>Role = ''user'',
                 Content = \<lparr>Type = ''text'',
                            Text = instantiate [(''name'', ''Alice'')] ?T\<rparr>\<rparr>]\<rparr>"
    using CreateHandler_result [where d = greeting and ctx = background
        and args = "[(''name'', ''Alice'')]" and T = ?T] content one
    by blast
  have r2: "CreateHandler greeting background [(''place'', ''Wonderland''), (''name'', ''Alice'')] =
        Inr \<lparr>GetPromptResult.Description = PromptDefinition.Description greeting,
             Messages =
               [\<lparr>Role = ''user'',
                 Content = \<lparr>Type = ''text'',
                            Text = instantiate
                              [(''place'', ''Wonderland''), (''name'', ''Alice'')] ?T\<rparr>\<rparr>]\<rparr>"
    using CreateHandler_result [where d = greeting and ctx = background
        and args = "[(''place'', ''Wonderland''), (''name'', ''Alice'')]" and T = ?T] content two
    by blast
  have r3: "CreateHandler emptyPrompt background [(''name'', ''Alice'')] =
        Inl (ErrorString (''no content available for prompt: '' @ PromptDefinition.Name emptyPrompt))"
    using CreateHandler_result [where d = emptyPrompt and ctx = background
        and args = "[(''name'', ''Alice'')]"] empty
    by blast
  have r4: "ReplaceAll ''Welcome to {{place}}.'' (placeholder ''name'') ''Alice'' =
      ''Welcome to {{place}}.''"
    using CreateHandler_result [where n = "''name''" and s = "''Welcome to {{place}}.''"
        and v = "''Alice''"] absent
    by blast
  have r5: "ReplaceAll ([] @ placeholder ''name'' @ '' and {{name}}'') (placeholder ''name'')
      ''Alice'' = [] @ ''Alice'' @ ReplaceAll '' and {{name}}'' (placeholder ''name'') ''Alice''"
    using CreateHandler_result [where n = "''name''" and pre = "[]"
        and post = "'' and {{name}}''" and v = "''Alice''"] leftmost
    by blast
  show ?thesis
    unfolding r1 r2 r3 r4
    using r5 by (simp add: greeting_def emptyPrompt_def placeholder_def)
qed

text \<open>
  The claim as first stated fails when a value holds the placeholder of another
  argument. For the content \<^verbatim>\<open>{{a}}\<close> and the map of \<^verbatim>\<open>a\<close> to \<^verbatim>\<open>{{b}}\<close> and
  \<^verbatim>\<open>b\<close> to \<^verbatim>\<open>X\<close>, the content with its placeholder replaced by the value is
  \<^verbatim>\<open>{{b}}\<close>; the handler returns \<^verbatim>\<open>X\<close> when the map is visited in the order
  \<^verbatim>\<open>a\<close>, \<^verbatim>\<open>b\<close>, and \<^verbatim>\<open>{{b}}\<close> in the other order.
\<close>

theorem CreateHandler_depends_on_order:
  "Content chainPrompt = render [Hole ''a''] \<and>
   instantiate [(''a'', ''{{b}}''), (''b'', ''X'')] [Hole ''a''] = ''{{b}}'' \<and>
   CreateHandler chainPrompt background [(''a'', ''{{b}}''), (''b'', ''X'')] =
     Inr \<lparr>GetPromptResult.Description = ''Chained prompt'',
          Messages = [\<lparr>Role = ''user'', Content = \<lparr>Type = ''text'', Text = ''X''\<rparr>\<rparr>]\<rparr> \<and>
   CreateHandler chainPrompt background [(''b'', ''X''), (''a'', ''{{b}}'')] =
     Inr \<lparr>GetPromptResult.Description = ''Chained prompt'',
          Messages = [\<lparr>Role = ''user'', Content = \<lparr>Type = ''text'', Text = ''{{b}}''\<rparr>\<rparr>]\<rparr>"
proof -
  have a: "ReplaceAll ''{{a}}'' ''{{a}}'' ''{{b}}'' = ''{{b}}''"
    using ReplaceAll_match [of "''{{a}}''" "[]" "''{{b}}''"] by (simp add: ReplaceAll_Nil)
  have b: "ReplaceAll ''{{b}}'' ''{{b}}'' ''X'' = ''X''"
    using ReplaceAll_match [of "''{{b}}''" "[]" "''X''"] by (simp add: ReplaceAll_Nil)
  have c: "ReplaceAll ''{{a}}'' ''{{b}}'' ''X'' = ''{{a}}''"
    by (rule ReplaceAll_absent) (simp_all add: sublist_Cons_right)
  show ?thesis
    by (simp add: chainPrompt_def CreateHandler_def placeholder_def a b c)
qed


end
